theory Spec2Isabelle
  imports Complex_Main
begin

section \<open>Wordle judge and guessing bots: a model of wordle.py\<close>

text \<open>
  The model follows \<^verbatim>\<open>wordle.py\<close>. Python strings are \<open>string\<close> (character lists),
  the dictionary \<^verbatim>\<open>words_base\<close> is a list of strings in file order, a graded letter is the
  pair \<^verbatim>\<open>(letter, status)\<close> with the status kept as the integer code of the source
  (0 = no match, 1 = letter in word, 2 = letter in correct place). Every exception the
  source can raise is a value of the type \<open>error\<close>; a function that can raise returns
  \<open>error + 'a\<close> with \<open>Inl\<close> for the exception. A failed \<^verbatim>\<open>assert\<close> carries its message.

  Python's true division \<^verbatim>\<open>/\<close> yields floats. The scores of the frequency bots are
  modelled in exact rational arithmetic (\<open>rat\<close>): rounding is not modelled.
\<close>

subsection \<open>Exceptions and indexing\<close>

datatype error =
    AssertionError string
  | IndexError
  | KeyError
  | ZeroDivisionError

type_synonym letter_result = "char \<times> int"

type_synonym guess_result = "letter_result list"

text \<open>\<^verbatim>\<open>w[i]\<close> for a non-negative index: IndexError past the end.\<close>

definition getitem :: "'a list \<Rightarrow> nat \<Rightarrow> error + 'a" where
  "getitem xs i = (if i < length xs then Inr (xs ! i) else Inl IndexError)"

text \<open>\<^verbatim>\<open>d[k]\<close> on a dictionary: KeyError on a missing key.\<close>

definition lookup :: "('k \<rightharpoonup> 'v) \<Rightarrow> 'k \<Rightarrow> error + 'v" where
  "lookup d k = (case d k of None \<Rightarrow> Inl KeyError | Some v \<Rightarrow> Inr v)"

text \<open>Sequencing of computations that may raise; the first exception wins.\<close>

definition bind :: "error + 'a \<Rightarrow> ('a \<Rightarrow> error + 'b) \<Rightarrow> error + 'b" where
  "bind m f = (case m of Inl e \<Rightarrow> Inl e | Inr x \<Rightarrow> f x)"

text \<open>A list comprehension whose element expression may raise: elements are evaluated
  left to right and the first exception aborts the comprehension.\<close>

fun map_err :: "('a \<Rightarrow> error + 'b) \<Rightarrow> 'a list \<Rightarrow> error + 'b list" where
  "map_err f [] = Inr []"
| "map_err f (x # xs) =
     (case f x of Inl e \<Rightarrow> Inl e
      | Inr y \<Rightarrow> (case map_err f xs of Inl e \<Rightarrow> Inl e | Inr ys \<Rightarrow> Inr (y # ys)))"

text \<open>A list comprehension with a condition that may raise:
  \<^verbatim>\<open>[x for x in xs if p(x)]\<close>.\<close>

fun filter_err :: "('a \<Rightarrow> error + bool) \<Rightarrow> 'a list \<Rightarrow> error + 'a list" where
  "filter_err p [] = Inr []"
| "filter_err p (x # xs) =
     (case p x of Inl e \<Rightarrow> Inl e
      | Inr b \<Rightarrow> (case filter_err p xs of Inl e \<Rightarrow> Inl e
                  | Inr ys \<Rightarrow> Inr (if b then x # ys else ys)))"

text \<open>\<^verbatim>\<open>enumerate(xs)\<close>, \<^verbatim>\<open>any(bs)\<close> and \<^verbatim>\<open>all(bs)\<close> on lists.\<close>

definition enumerate_list :: "'a list \<Rightarrow> (nat \<times> 'a) list" where
  "enumerate_list xs = zip [0..<length xs] xs"

definition any_list :: "bool list \<Rightarrow> bool" where
  "any_list bs = list_ex (\<lambda>b. b) bs"

definition all_list :: "bool list \<Rightarrow> bool" where
  "all_list bs = list_all (\<lambda>b. b) bs"

subsection \<open>The game: class Wordle\<close>

text \<open>The fields of a \<^verbatim>\<open>Wordle\<close> object that grading reads. The dictionary is read from
  \<^verbatim>\<open>words.txt\<close> by \<^verbatim>\<open>create_dictionary\<close>; the file is not part of the source, so the
  word list is a field supplied by the caller.\<close>

record wordle =
  words_base :: "string list"
  target :: string

text \<open>\<^verbatim>\<open>random.choice(seq)\<close>: the draw \<open>r\<close> of the random source is an argument; the
  library raises IndexError on an empty sequence.\<close>

definition random_choice :: "nat \<Rightarrow> 'a list \<Rightarrow> error + 'a" where
  "random_choice r xs = (if xs = [] then Inl IndexError else Inr (xs ! (r mod length xs)))"

text \<open>\<^verbatim>\<open>set_target\<close>, lines 36-48: a random word when no target is given, else the given
  word after the assertion that the dictionary has it.\<close>

definition set_target :: "string list \<Rightarrow> nat \<Rightarrow> string option \<Rightarrow> error + wordle" where
  "set_target wb r target_word =
     (case target_word of
        None \<Rightarrow> bind (random_choice r wb) (\<lambda>t. Inr \<lparr>words_base = wb, target = t\<rparr>)
      | Some t \<Rightarrow>
          if t \<in> set wb then Inr \<lparr>words_base = wb, target = t\<rparr>
          else Inl (AssertionError ''Invalid target word. Not in dictionary.''))"

text \<open>The body of the loop of \<^verbatim>\<open>try_word\<close>, lines 69-74, for one position.\<close>

definition grade_letter :: "string \<Rightarrow> string \<Rightarrow> nat \<Rightarrow> error + letter_result" where
  "grade_letter tgt word i =
     bind (getitem word i) (\<lambda>c.
     bind (getitem tgt i) (\<lambda>d.
       if c = d then Inr (c, 2)
       else if c \<in> set tgt then Inr (c, 1)
       else Inr (c, 0)))"

text \<open>The loop \<^verbatim>\<open>for i in range(0,5)\<close> with its accumulator \<^verbatim>\<open>res\<close>.\<close>

fun try_word_loop :: "string \<Rightarrow> string \<Rightarrow> nat list \<Rightarrow> guess_result \<Rightarrow> error + guess_result" where
  "try_word_loop tgt word [] res = Inr res"
| "try_word_loop tgt word (i # is) res =
     (case grade_letter tgt word i of
        Inl e \<Rightarrow> Inl e
      | Inr v \<Rightarrow> try_word_loop tgt word is (res @ [v]))"

text \<open>\<^verbatim>\<open>try_word\<close>, lines 51-77.\<close>

definition try_word :: "wordle \<Rightarrow> string \<Rightarrow> error + guess_result \<times> bool" where
  "try_word game word =
     (if length word \<noteq> 5 then Inl (AssertionError ''Word must be 5 letters'')
      else if word \<notin> set (words_base game) then Inl (AssertionError ''Word not in dictionary'')
      else bind (try_word_loop (target game) word [0..<5] [])
             (\<lambda>res. Inr (res, all_list (map (\<lambda>l. snd l = 2) res))))"

subsection \<open>The bots\<close>


record bot =
  bot_words_base :: "string list"
  working_dict :: "string list"
  pos_wgt :: rat
  random_draws :: "nat \<Rightarrow> nat"
  random_pos :: nat

text \<open>\<^verbatim>\<open>reset_state\<close>: a no-op in the base class, a fresh copy of the dictionary in the
  three filtering bots.\<close>

definition WordleBotBase_reset_state :: "bot \<Rightarrow> bot" where
  "WordleBotBase_reset_state b = b"

definition reset_state :: "bot \<Rightarrow> bot" where
  "reset_state b = b\<lparr>working_dict := bot_words_base b\<rparr>"

text \<open>\<^verbatim>\<open>WordleBotBase.next_guess\<close>, line 110.\<close>

definition WordleBotBase_next_guess :: "bot \<Rightarrow> guess_result list \<Rightarrow> error + string \<times> bot" where
  "WordleBotBase_next_guess b past_guesses =
     bind (random_choice (random_draws b (random_pos b)) (bot_words_base b))
       (\<lambda>w. Inr (w, b\<lparr>random_pos := random_pos b + 1\<rparr>))"

text \<open>
  The dictionary filter, written three times in the source with the same text (lines
  201-209, 234-242, 279-287). For a candidate \<open>w\<close>, a position \<open>i\<close> and the graded letter
  \<open>t\<close> of the last guess at that position, the inner list holds four tests. Python's
  \<^verbatim>\<open>&\<close> evaluates both operands, so \<^verbatim>\<open>w[i]\<close> is read whatever the status is, and a
  candidate shorter than the graded guess raises IndexError.
\<close>

definition excluded_at :: "string \<Rightarrow> nat \<times> letter_result \<Rightarrow> error + bool" where
  "excluded_at w it =
     (case it of (i, t) \<Rightarrow>
        bind (getitem w i) (\<lambda>c.
          Inr (any_list
            [snd t = 0 \<and> fst t \<in> set w,
             snd t = 1 \<and> fst t \<notin> set w,
             snd t = 1 \<and> fst t = c,
             snd t = 2 \<and> fst t \<noteq> c])))"

definition keep_word :: "guess_result \<Rightarrow> string \<Rightarrow> error + bool" where
  "keep_word last_guess w =
     bind (map_err (excluded_at w) (enumerate_list last_guess))
       (\<lambda>bs. Inr (\<not> any_list bs))"

definition filter_working_dict :: "string list \<Rightarrow> guess_result \<Rightarrow> error + string list" where
  "filter_working_dict wd last_guess = filter_err (keep_word last_guess) wd"

text \<open>The guard \<^verbatim>\<open>if len(past_guesses) > 0\<close> and the read of \<^verbatim>\<open>past_guesses[-1]\<close>.\<close>

definition update_working_dict :: "string list \<Rightarrow> guess_result list \<Rightarrow> error + string list" where
  "update_working_dict wd past_guesses =
     (if length past_guesses > 0 then filter_working_dict wd (last past_guesses)
      else Inr wd)"

text \<open>\<^verbatim>\<open>FilterBot.next_guess\<close>, lines 196-212.\<close>

definition FilterBot_next_guess :: "bot \<Rightarrow> guess_result list \<Rightarrow> error + string \<times> bot" where
  "FilterBot_next_guess b past_guesses =
     bind (update_working_dict (working_dict b) past_guesses) (\<lambda>wd.
     bind (random_choice (random_draws b (random_pos b)) wd) (\<lambda>guess.
       Inr (guess, b\<lparr>working_dict := wd, random_pos := random_pos b + 1\<rparr>)))"

subsection \<open>Letter frequencies and scores\<close>

definition ascii_lowercase :: string where
  "ascii_lowercase = ''abcdefghijklmnopqrstuvwxyz''"

text \<open>True division: ZeroDivisionError on a zero divisor.\<close>

definition truediv :: "rat \<Rightarrow> rat \<Rightarrow> error + rat" where
  "truediv a b = (if b = 0 then Inl ZeroDivisionError else Inr (a / b))"

text \<open>Lines 245-246 and 290-291: \<^verbatim>\<open>j.count(l)\<close> counts the occurrences of the letter in
  the concatenation of the working dictionary.\<close>

definition char_freq :: "string list \<Rightarrow> error + (char \<rightharpoonup> rat)" where
  "char_freq wd =
     (let j = concat wd in
      bind (map_err (\<lambda>l. bind (truediv (of_nat (count_list j l)) (of_nat (length wd)))
                            (\<lambda>f. Inr (l, f))) ascii_lowercase)
        (\<lambda>kvs. Inr (map_of kvs)))"


text \<open>Python's \<^verbatim>\<open>sorted(xs, key=k, reverse=True)\<close> is stable: elements with equal keys
  keep their order. The interpreter reverses the list, sorts it stably in ascending
  order and reverses the result; \<open>sort_key\<close> is a stable ascending sort.\<close>

definition sorted_reverse :: "('a \<Rightarrow> 'k::linorder) \<Rightarrow> 'a list \<Rightarrow> 'a list" where
  "sorted_reverse key xs = rev (sort_key key (rev xs))"





text \<open>Lines 292-293: for every letter the dictionary from the positions 0..4 to the number
  of words with the letter there. The inner dictionary is an association list, since
  \<^verbatim>\<open>.values()\<close> is summed. \<^verbatim>\<open>w[i]\<close> raises IndexError on a word shorter than 5.\<close>

definition cpos_count :: "string list \<Rightarrow> char \<Rightarrow> nat \<Rightarrow> error + nat" where
  "cpos_count wd l i =
     bind (map_err (\<lambda>w. bind (getitem w i) (\<lambda>c. Inr (l = c))) wd)
       (\<lambda>bs. Inr (length (filter (\<lambda>b. b) bs)))"

definition cpos_freq :: "string list \<Rightarrow> error + (char \<rightharpoonup> (nat \<times> nat) list)" where
  "cpos_freq wd =
     bind (map_err (\<lambda>l. bind (map_err (\<lambda>i. bind (cpos_count wd l i) (\<lambda>n. Inr (i, n))) [0..<5])
                            (\<lambda>d. Inr (l, d))) ascii_lowercase)
       (\<lambda>kvs. Inr (map_of kvs))"

text \<open>Line 298, the summand for position \<open>i\<close> with letter \<open>l\<close> of the word \<open>w\<close>, in
  Python's evaluation order:
  \<^verbatim>\<open>char_freq[l] / w.count(l) * (1 + (cpos_freq[l][i] / sum(cpos_freq[l].values()) / self.pos_wgt))\<close>.
  The second read of \<^verbatim>\<open>cpos_freq[l]\<close> finds the key that the first one found, so one
  lookup stands for both.\<close>

definition freq2_term ::
  "(char \<rightharpoonup> rat) \<Rightarrow> (char \<rightharpoonup> (nat \<times> nat) list) \<Rightarrow> rat \<Rightarrow> string \<Rightarrow> nat \<times> char \<Rightarrow> error + rat" where
  "freq2_term cf cpf pw w il =
     (case il of (i, l) \<Rightarrow>
        bind (lookup cf l) (\<lambda>a.
        bind (truediv a (of_nat (count_list w l))) (\<lambda>q.
        bind (lookup cpf l) (\<lambda>d.
        bind (lookup (map_of d) i) (\<lambda>c.
        bind (truediv (of_nat c) (of_nat (sum_list (map snd d)))) (\<lambda>p.
        bind (truediv p pw) (\<lambda>bonus.
          Inr (q * (1 + bonus)))))))))"

definition freq2_score ::
  "(char \<rightharpoonup> rat) \<Rightarrow> (char \<rightharpoonup> (nat \<times> nat) list) \<Rightarrow> rat \<Rightarrow> string \<Rightarrow> error + rat" where
  "freq2_score cf cpf pw w =
     bind (map_err (freq2_term cf cpf pw w) (enumerate_list w)) (\<lambda>ts. Inr (sum_list ts))"

definition freq2_scores :: "string list \<Rightarrow> rat \<Rightarrow> error + (string \<times> rat) list" where
  "freq2_scores wd pw =
     bind (char_freq wd) (\<lambda>cf.
     bind (cpos_freq wd) (\<lambda>cpf.
       map_err (\<lambda>w. bind (freq2_score cf cpf pw w) (\<lambda>s. Inr (w, s))) wd))"


subsection \<open>The game loop\<close>



section \<open>Reference definitions\<close>

text \<open>The names of the specification for the status codes and for the three failed
  assertions of the game.\<close>

definition NoMatch :: int where
  "NoMatch = 0"

definition Present :: int where
  "Present = 1"

definition ExactMatch :: int where
  "ExactMatch = 2"

definition InvalidGuess :: error where
  "InvalidGuess = AssertionError ''Word must be 5 letters''"

definition UnknownWord :: error where
  "UnknownWord = AssertionError ''Word not in dictionary''"

definition InvalidTarget :: error where
  "InvalidTarget = AssertionError ''Invalid target word. Not in dictionary.''"

text \<open>A word of the data model: five lowercase letters.\<close>

definition is_word :: "string \<Rightarrow> bool" where
  "is_word w = (length w = 5 \<and> list_all (\<lambda>c. c \<in> set ascii_lowercase) w)"

text \<open>The grading rule as the specification words it: exact match first, then presence
  anywhere in the target, else no match; the win flag is the conjunction over the five
  positions.\<close>

definition spec_status :: "string \<Rightarrow> string \<Rightarrow> nat \<Rightarrow> int" where
  "spec_status tgt guess i =
     (if guess ! i = tgt ! i then ExactMatch
      else if guess ! i \<in> set tgt then Present
      else NoMatch)"

definition spec_grade :: "string \<Rightarrow> string \<Rightarrow> guess_result \<times> bool" where
  "spec_grade tgt guess =
     (map (\<lambda>i. (guess ! i, spec_status tgt guess i)) [0..<5],
      list_all (\<lambda>i. spec_status tgt guess i = ExactMatch) [0..<5])"


text \<open>The candidate filter as the specification words it: the rule of one position, and
  the candidates that no position of the record disqualifies.\<close>

definition spec_disqualifies :: "letter_result \<Rightarrow> nat \<Rightarrow> string \<Rightarrow> bool" where
  "spec_disqualifies t i w =
     (case t of (letter, status) \<Rightarrow>
        (status = NoMatch \<and> letter \<in> set w) \<or>
        (status = Present \<and> (letter \<notin> set w \<or> w ! i = letter)) \<or>
        (status = ExactMatch \<and> w ! i \<noteq> letter))"

definition spec_filter :: "string list \<Rightarrow> guess_result \<Rightarrow> string list" where
  "spec_filter candidates lastRecord =
     filter (\<lambda>w. \<not> list_ex (\<lambda>i. spec_disqualifies (lastRecord ! i) i w) [0..<5]) candidates"

text \<open>The records of a list of guesses graded by one game, and the working dictionary
  after the calls of \<^verbatim>\<open>next_guess\<close> that follow each new record of a history: the call
  after a record sees the history that ends with it.\<close>

definition grade_all :: "wordle \<Rightarrow> string list \<Rightarrow> error + guess_result list" where
  "grade_all game guesses = map_err (\<lambda>g. bind (try_word game g) (\<lambda>res. Inr (fst res))) guesses"

fun replay_updates ::
  "string list \<Rightarrow> guess_result list \<Rightarrow> guess_result list \<Rightarrow> error + string list" where
  "replay_updates wd past [] = Inr wd"
| "replay_updates wd past (r # rs) =
     bind (update_working_dict wd (past @ [r])) (\<lambda>wd'. replay_updates wd' (past @ [r]) rs)"


text \<open>The number of occurrences of the letter in all candidate words, a repeated letter
  of a word counted each time, over the number of candidates.\<close>

definition occurrence_freq :: "string list \<Rightarrow> char \<Rightarrow> rat" where
  "occurrence_freq candidates letter =
     of_nat (\<Sum>w\<leftarrow>candidates. count_list w letter) / of_nat (length candidates)"


text \<open>The positional frequency and the positional score as the specification words
  them, for a given letter frequency.\<close>

definition spec_posFreq :: "string list \<Rightarrow> char \<Rightarrow> nat \<Rightarrow> rat" where
  "spec_posFreq candidates letter i =
     of_nat (length (filter (\<lambda>w. w ! i = letter) candidates)) / of_nat (length candidates)"

definition spec_pos_score :: "(char \<Rightarrow> rat) \<Rightarrow> string list \<Rightarrow> rat \<Rightarrow> string \<Rightarrow> rat" where
  "spec_pos_score charFreq candidates posWeight w =
     (\<Sum>i\<leftarrow>[0..<5].
        (charFreq (w ! i) / of_nat (count_list w (w ! i))) *
        (1 + spec_posFreq candidates (w ! i) i /
               (\<Sum>j\<leftarrow>[0..<5]. spec_posFreq candidates (w ! i) j) / posWeight))"







section \<open>Properties of the judge\<close>

lemma grade_letter_in_range:
  "i < length word \<Longrightarrow> i < length tgt \<Longrightarrow>
   grade_letter tgt word i = Inr (word ! i, spec_status tgt word i)"
  by (simp add: grade_letter_def bind_def getitem_def spec_status_def
      NoMatch_def Present_def ExactMatch_def)

lemma try_word_loop_in_range:
  "\<forall>i \<in> set is. i < length word \<and> i < length tgt \<Longrightarrow>
   try_word_loop tgt word is res =
     Inr (res @ map (\<lambda>i. (word ! i, spec_status tgt word i)) is)"
  by (induction "is" arbitrary: res) (simp_all add: grade_letter_in_range)

lemma try_word_loop_error:
  "try_word_loop tgt word is res = Inl e \<Longrightarrow> e = IndexError"
  by (induction "is" arbitrary: res)
     (auto simp: grade_letter_def bind_def getitem_def split: sum.splits if_splits)

lemma try_word_spec_grade:
  assumes "length (target game) = 5" "length guess = 5" "guess \<in> set (words_base game)"
  shows "try_word game guess = Inr (spec_grade (target game) guess)"
proof -
  have "try_word_loop (target game) guess [0..<5] [] =
     Inr (map (\<lambda>i. (guess ! i, spec_status (target game) guess i)) [0..<5])"
    using assms by (subst try_word_loop_in_range) simp_all
  then show ?thesis
    using assms
    by (simp add: try_word_def bind_def spec_grade_def all_list_def list_all_iff
        ExactMatch_def del: upt_Suc)
qed

lemma spec_grade_win_iff:
  assumes "length tgt = 5" "length guess = 5"
  shows "snd (spec_grade tgt guess) \<longleftrightarrow> guess = tgt"
proof -
  have "snd (spec_grade tgt guess) \<longleftrightarrow> (\<forall>i<5. guess ! i = tgt ! i)"
    by (auto simp: spec_grade_def spec_status_def list_all_iff
        NoMatch_def Present_def ExactMatch_def)
  also have "\<dots> \<longleftrightarrow> guess = tgt"
    using assms by (auto simp: list_eq_iff_nth_eq)
  finally show ?thesis .
qed

text \<open>
  C1. For a 5-letter target and a 5-letter guess of the dictionary, \<open>try_word\<close> returns
  five graded letters in the order of the guess: position \<open>i\<close> is ExactMatch when the
  letters agree there, else Present when the letter of the guess occurs anywhere in the
  target, else NoMatch; the win flag says that all five are ExactMatch. For the target
  whack and the guess crank, in any dictionary that has crank, the result is
  c Present, r NoMatch, a ExactMatch, n NoMatch, k ExactMatch, and no win.
\<close>

theorem try_word_grades_by_position:
  "(length (target game) = 5 \<and> length guess = 5 \<and> guess \<in> set (words_base game) \<longrightarrow>
      try_word game guess = Inr (spec_grade (target game) guess)) \<and>
   (''crank'' \<in> set wb \<longrightarrow>
      try_word \<lparr>words_base = wb, target = ''whack''\<rparr> ''crank'' =
        Inr ([(CHR ''c'', Present), (CHR ''r'', NoMatch), (CHR ''a'', ExactMatch),
              (CHR ''n'', NoMatch), (CHR ''k'', ExactMatch)], False))"
proof (intro conjI impI)
  assume "length (target game) = 5 \<and> length guess = 5 \<and> guess \<in> set (words_base game)"
  then show "try_word game guess = Inr (spec_grade (target game) guess)"
    by (simp add: try_word_spec_grade)
next
  assume "''crank'' \<in> set wb"
  then show "try_word \<lparr>words_base = wb, target = ''whack''\<rparr> ''crank'' =
        Inr ([(CHR ''c'', Present), (CHR ''r'', NoMatch), (CHR ''a'', ExactMatch),
              (CHR ''n'', NoMatch), (CHR ''k'', ExactMatch)], False)"
    by (simp add: try_word_def bind_def grade_letter_def getitem_def all_list_def upt_rec
        NoMatch_def Present_def ExactMatch_def)
qed

theorem try_word_grades_by_position_witness:
  "length (target \<lparr>words_base = [''crank'', ''whack'', ''wrack''], target = ''whack''\<rparr>) = 5 \<and>
   length ''wrack'' = 5 \<and>
   ''wrack'' \<in> set (words_base \<lparr>words_base = [''crank'', ''whack'', ''wrack''], target = ''whack''\<rparr>) \<and>
   ''crank'' \<in> set [''crank'', ''whack'', ''wrack''] \<and>
   try_word \<lparr>words_base = [''crank'', ''whack'', ''wrack''], target = ''whack''\<rparr> ''wrack'' =
     Inr ([(CHR ''w'', 2), (CHR ''r'', 0), (CHR ''a'', 2), (CHR ''c'', 2), (CHR ''k'', 2)], False) \<and>
   try_word \<lparr>words_base = [''crank'', ''whack'', ''wrack''], target = ''whack''\<rparr> ''crank'' =
     Inr ([(CHR ''c'', 1), (CHR ''r'', 0), (CHR ''a'', 2), (CHR ''n'', 0), (CHR ''k'', 2)], False)"
  using try_word_grades_by_position
    [of "\<lparr>words_base = [''crank'', ''whack'', ''wrack''], target = ''whack''\<rparr>" "''wrack''"
        "[''crank'', ''whack'', ''wrack'']"]
  by (simp add: spec_grade_def spec_status_def NoMatch_def Present_def ExactMatch_def upt_rec)

text \<open>
  C10. For a 5-letter target and a 5-letter guess of the dictionary, \<open>try_word\<close> returns
  a result, and its win flag is true exactly when the guess is the target.
\<close>

theorem try_word_win_iff_target:
  assumes "length (target game) = 5" "length guess = 5" "guess \<in> set (words_base game)"
  shows "\<exists>res win. try_word game guess = Inr (res, win) \<and> (win \<longleftrightarrow> guess = target game)"
proof -
  have "try_word game guess = Inr (spec_grade (target game) guess)"
    using assms by (rule try_word_spec_grade)
  moreover have "snd (spec_grade (target game) guess) \<longleftrightarrow> guess = target game"
    using assms(1,2) by (rule spec_grade_win_iff)
  ultimately show ?thesis
    by (cases "spec_grade (target game) guess") simp
qed

theorem try_word_win_iff_target_witness:
  "length (target \<lparr>words_base = [''crank'', ''whack''], target = ''whack''\<rparr>) = 5 \<and>
   length ''whack'' = 5 \<and>
   ''whack'' \<in> set (words_base \<lparr>words_base = [''crank'', ''whack''], target = ''whack''\<rparr>) \<and>
   (\<exists>res win. try_word \<lparr>words_base = [''crank'', ''whack''], target = ''whack''\<rparr> ''whack''
        = Inr (res, win) \<and> (win \<longleftrightarrow> ''whack'' = ''whack''))"
  using try_word_win_iff_target
    [of "\<lparr>words_base = [''crank'', ''whack''], target = ''whack''\<rparr>" "''whack''"]
  by simp

text \<open>
  C9, as the code has it. \<open>try_word\<close> fails with InvalidGuess exactly when the guess does
  not have 5 letters. It fails with UnknownWord exactly when the guess has 5 letters and
  is not in the dictionary: the length is asserted first, so a guess of another length
  fails with InvalidGuess whether the dictionary has it or not. \<open>set_target\<close> with
  an explicit target outside the dictionary fails with InvalidTarget. With a 5-letter
  target, a guess of 5 letters that the dictionary has is graded.
\<close>

theorem try_word_failures:
  "(try_word game guess = Inl InvalidGuess \<longleftrightarrow> length guess \<noteq> 5) \<and>
   (try_word game guess = Inl UnknownWord \<longleftrightarrow>
      length guess = 5 \<and> guess \<notin> set (words_base game)) \<and>
   (t \<notin> set wb \<longrightarrow> set_target wb r (Some t) = Inl InvalidTarget) \<and>
   (length (target game) = 5 \<and> length guess = 5 \<and> guess \<in> set (words_base game) \<longrightarrow>
      (\<exists>res. try_word game guess = Inr res))"
proof (intro conjI impI)
  show "try_word game guess = Inl InvalidGuess \<longleftrightarrow> length guess \<noteq> 5"
  proof (cases "length guess = 5 \<and> guess \<in> set (words_base game)")
    case True
    then show ?thesis
      by (cases "try_word_loop (target game) guess [0..<5] []")
         (auto simp: try_word_def bind_def InvalidGuess_def
            dest: try_word_loop_error simp del: upt_Suc)
  next
    case False
    then show ?thesis
      by (auto simp: try_word_def InvalidGuess_def)
  qed
  show "try_word game guess = Inl UnknownWord \<longleftrightarrow>
      length guess = 5 \<and> guess \<notin> set (words_base game)"
  proof (cases "length guess = 5 \<and> guess \<in> set (words_base game)")
    case True
    then show ?thesis
      by (cases "try_word_loop (target game) guess [0..<5] []")
         (auto simp: try_word_def bind_def UnknownWord_def
            dest: try_word_loop_error simp del: upt_Suc)
  next
    case False
    then show ?thesis
      by (auto simp: try_word_def UnknownWord_def)
  qed
  show "set_target wb r (Some t) = Inl InvalidTarget" if "t \<notin> set wb"
    using that by (simp add: set_target_def InvalidTarget_def)
  show "\<exists>res. try_word game guess = Inr res"
    if "length (target game) = 5 \<and> length guess = 5 \<and> guess \<in> set (words_base game)"
    using that by (simp add: try_word_spec_grade)
qed

theorem try_word_failures_witness:
  "''abc'' \<notin> set [''crank'', ''whack''] \<and>
   set_target [''crank'', ''whack''] 0 (Some ''abc'') = Inl InvalidTarget \<and>
   length (target \<lparr>words_base = [''crank'', ''whack''], target = ''whack''\<rparr>) = 5 \<and>
   length ''crank'' = 5 \<and>
   ''crank'' \<in> set (words_base \<lparr>words_base = [''crank'', ''whack''], target = ''whack''\<rparr>) \<and>
   (\<exists>res. try_word \<lparr>words_base = [''crank'', ''whack''], target = ''whack''\<rparr> ''crank'' = Inr res)"
  using try_word_failures
    [of "\<lparr>words_base = [''crank'', ''whack''], target = ''whack''\<rparr>" "''crank''" "''abc''"
        "[''crank'', ''whack'']" 0]
  by simp

text \<open>
  C9 as stated fails: the guess abc is not in the dictionary, yet \<open>try_word\<close> does not
  fail with UnknownWord; it fails with InvalidGuess.
\<close>

theorem try_word_unknown_word_counterexample:
  "''abc'' \<notin> set (words_base \<lparr>words_base = [''crank'', ''whack''], target = ''whack''\<rparr>) \<and>
   try_word \<lparr>words_base = [''crank'', ''whack''], target = ''whack''\<rparr> ''abc'' \<noteq> Inl UnknownWord \<and>
   try_word \<lparr>words_base = [''crank'', ''whack''], target = ''whack''\<rparr> ''abc'' = Inl InvalidGuess"
  by (simp add: try_word_def UnknownWord_def InvalidGuess_def)

section \<open>Properties of the candidate filter\<close>

lemma map_err_total:
  "(\<And>x. x \<in> set xs \<Longrightarrow> f x = Inr (g x)) \<Longrightarrow> map_err f xs = Inr (map g xs)"
  by (induction xs) simp_all

lemma filter_err_total:
  "(\<And>x. x \<in> set xs \<Longrightarrow> p x = Inr (q x)) \<Longrightarrow> filter_err p xs = Inr (filter q xs)"
  by (induction xs) simp_all

lemma excluded_at_in_range:
  "i < length w \<Longrightarrow> excluded_at w (i, t) = Inr (spec_disqualifies t i w)"
  by (cases t)
     (auto simp: excluded_at_def bind_def getitem_def spec_disqualifies_def any_list_def
        NoMatch_def Present_def ExactMatch_def)

lemma enumerate_list_nth:
  "enumerate_list xs = map (\<lambda>i. (i, xs ! i)) [0..<length xs]"
  unfolding enumerate_list_def by (rule nth_equalityI) simp_all

lemma keep_word_in_range:
  assumes "length r \<le> length w"
  shows "keep_word r w = Inr (\<not> list_ex (\<lambda>i. spec_disqualifies (r ! i) i w) [0..<length r])"
proof -
  have "map_err (excluded_at w) (enumerate_list r) =
        Inr (map (\<lambda>it. spec_disqualifies (snd it) (fst it) w) (enumerate_list r))"
  proof (rule map_err_total)
    fix it assume "it \<in> set (enumerate_list r)"
    then have "fst it < length w"
      using assms by (auto simp: enumerate_list_nth)
    then show "excluded_at w it = Inr (spec_disqualifies (snd it) (fst it) w)"
      using excluded_at_in_range [of "fst it" w "snd it"] by simp
  qed
  moreover have "any_list (map (\<lambda>it. spec_disqualifies (snd it) (fst it) w) (enumerate_list r))
       \<longleftrightarrow> list_ex (\<lambda>i. spec_disqualifies (r ! i) i w) [0..<length r]"
    by (simp add: any_list_def list_ex_iff enumerate_list_nth)
  ultimately show ?thesis
    by (simp add: keep_word_def bind_def)
qed

lemma filter_working_dict_spec:
  assumes "length r = 5" "\<forall>w \<in> set wd. length w = 5"
  shows "filter_working_dict wd r = Inr (spec_filter wd r)"
  unfolding filter_working_dict_def spec_filter_def
proof (rule filter_err_total)
  fix w assume "w \<in> set wd"
  then have "length r \<le> length w"
    using assms by simp
  then show "keep_word r w = Inr (\<not> list_ex (\<lambda>i. spec_disqualifies (r ! i) i w) [0..<5])"
    using keep_word_in_range [of r w] assms(1) by simp
qed

lemma spec_grade_keeps_target:
  assumes "length tgt = 5" "length guess = 5"
  shows "\<not> list_ex (\<lambda>i. spec_disqualifies (fst (spec_grade tgt guess) ! i) i tgt) [0..<5]"
proof -
  have "\<not> spec_disqualifies (fst (spec_grade tgt guess) ! i) i tgt" if "i < 5" for i
  proof -
    have "fst (spec_grade tgt guess) ! i = (guess ! i, spec_status tgt guess i)"
      using that by (simp add: spec_grade_def del: upt_Suc)
    moreover have "tgt ! i \<in> set tgt"
      using that assms(1) by simp
    ultimately show ?thesis
      by (auto simp: spec_disqualifies_def spec_status_def
          NoMatch_def Present_def ExactMatch_def)
  qed
  then show ?thesis
    by (simp add: list_ex_iff)
qed

lemma try_word_Inr_D:
  assumes "try_word game guess = Inr (r, win)" "length (target game) = 5"
  shows "r = fst (spec_grade (target game) guess)" "length guess = 5" "length r = 5"
proof -
  have g: "length guess = 5" "guess \<in> set (words_base game)"
    using assms(1) by (auto simp: try_word_def split: if_splits)
  then have "try_word game guess = Inr (spec_grade (target game) guess)"
    using assms(2) by (simp add: try_word_spec_grade)
  with assms(1) show "r = fst (spec_grade (target game) guess)"
    by simp
  then show "length r = 5"
    by (simp add: spec_grade_def)
  show "length guess = 5" by (rule g)
qed

lemma filter_keeps_target:
  assumes "try_word game guess = Inr (r, win)"
    and "target game \<in> set wd" and "\<forall>w \<in> set wd. length w = 5"
  shows "filter_working_dict wd r = Inr (spec_filter wd r)"
    and "target game \<in> set (spec_filter wd r)"
    and "\<forall>w \<in> set (spec_filter wd r). length w = 5"
proof -
  have len: "length (target game) = 5"
    using assms(2,3) by simp
  note D = try_word_Inr_D [OF assms(1) len]
  show "filter_working_dict wd r = Inr (spec_filter wd r)"
    using D(3) assms(3) by (rule filter_working_dict_spec)
  show "target game \<in> set (spec_filter wd r)"
    using spec_grade_keeps_target [OF len D(2)] assms(2) D(1)
    by (simp add: spec_filter_def)
  show "\<forall>w \<in> set (spec_filter wd r). length w = 5"
    using assms(3) by (simp add: spec_filter_def)
qed

lemma grade_all_Cons:
  "grade_all game (g # gs) = Inr rs \<Longrightarrow>
   \<exists>r win rs'. try_word game g = Inr (r, win) \<and> grade_all game gs = Inr rs' \<and> rs = r # rs'"
  by (auto simp: grade_all_def bind_def split: sum.splits)

lemma replay_keeps_target:
  "grade_all game gs = Inr rs \<Longrightarrow> target game \<in> set wd \<Longrightarrow> \<forall>w \<in> set wd. length w = 5 \<Longrightarrow>
   \<exists>wd'. replay_updates wd past rs = Inr wd' \<and> target game \<in> set wd'"
proof (induction gs arbitrary: rs wd past)
  case Nil
  then show ?case by (simp add: grade_all_def)
next
  case (Cons g gs)
  from grade_all_Cons [OF Cons.prems(1)] obtain r win rs'
    where g: "try_word game g = Inr (r, win)" and gs: "grade_all game gs = Inr rs'"
      and rs: "rs = r # rs'"
    by blast
  note step = filter_keeps_target [OF g Cons.prems(2,3)]
  from Cons.IH [OF gs step(2,3)] obtain wd'
    where "replay_updates (spec_filter wd r) (past @ [r]) rs' = Inr wd'" "target game \<in> set wd'"
    by blast
  then show ?case
    using step(1) rs by (simp add: bind_def update_working_dict_def)
qed

text \<open>
  C3. For a record of 5 graded letters and candidates of 5 letters, the filter returns,
  in their order, the candidates that no position disqualifies, where at position \<open>i\<close>
  with the graded letter (letter, status): NoMatch disqualifies a word that has the
  letter anywhere, Present disqualifies a word that lacks the letter or has it at
  position \<open>i\<close>, ExactMatch disqualifies a word with another letter at position \<open>i\<close>.
  A word is kept exactly when it is a candidate and none of the five positions
  disqualifies it.
\<close>

theorem filter_working_dict_keeps_iff:
  assumes "length r = 5" "\<forall>w \<in> set wd. length w = 5"
  shows "filter_working_dict wd r = Inr (spec_filter wd r) \<and>
         (w \<in> set (spec_filter wd r) \<longleftrightarrow>
            w \<in> set wd \<and> \<not> (\<exists>i<5. spec_disqualifies (r ! i) i w))"
proof
  show "filter_working_dict wd r = Inr (spec_filter wd r)"
    using assms by (rule filter_working_dict_spec)
  show "w \<in> set (spec_filter wd r) \<longleftrightarrow>
            w \<in> set wd \<and> \<not> (\<exists>i<5. spec_disqualifies (r ! i) i w)"
    by (auto simp: spec_filter_def list_ex_iff)
qed

theorem filter_working_dict_keeps_iff_witness:
  "length [(CHR ''c'', 1), (CHR ''r'', 0), (CHR ''a'', 2), (CHR ''n'', 0), (CHR ''k'', 2 :: int)] = 5 \<and>
   list_all (\<lambda>w. length w = 5) [''crank'', ''whack'', ''clack'', ''aback''] \<and>
   filter_working_dict [''crank'', ''whack'', ''clack'', ''aback'']
     [(CHR ''c'', 1), (CHR ''r'', 0), (CHR ''a'', 2), (CHR ''n'', 0), (CHR ''k'', 2)]
     = Inr [''whack'', ''aback''] \<and>
   ''whack'' \<in> set (spec_filter [''crank'', ''whack'', ''clack'', ''aback'']
     [(CHR ''c'', 1), (CHR ''r'', 0), (CHR ''a'', 2), (CHR ''n'', 0), (CHR ''k'', 2)])"
  using filter_working_dict_keeps_iff
    [of "[(CHR ''c'', 1), (CHR ''r'', 0), (CHR ''a'', 2), (CHR ''n'', 0), (CHR ''k'', 2)]"
        "[''crank'', ''whack'', ''clack'', ''aback'']" "''whack''"]
  by (simp add: spec_filter_def spec_disqualifies_def NoMatch_def Present_def ExactMatch_def
      upt_rec)

text \<open>
  C2. When a record comes from grading a guess against the target, and the candidates
  are 5-letter words with the target among them, the filter returns a candidate list
  that still has the target. The same holds along a history: after the updates of the
  working dictionary for the records of any list of guesses graded against the target,
  the target is still a candidate.
\<close>

theorem filter_never_removes_target:
  assumes "target game \<in> set wd" "\<forall>w \<in> set wd. length w = 5"
  shows "(try_word game guess = Inr (r, win) \<longrightarrow>
            (\<exists>wd'. filter_working_dict wd r = Inr wd' \<and> target game \<in> set wd')) \<and>
         (grade_all game gs = Inr rs \<longrightarrow>
            (\<exists>wd'. replay_updates wd [] rs = Inr wd' \<and> target game \<in> set wd'))"
proof (intro conjI impI)
  assume "try_word game guess = Inr (r, win)"
  from filter_keeps_target(1,2) [OF this assms]
  show "\<exists>wd'. filter_working_dict wd r = Inr wd' \<and> target game \<in> set wd'"
    by blast
next
  assume "grade_all game gs = Inr rs"
  then show "\<exists>wd'. replay_updates wd [] rs = Inr wd' \<and> target game \<in> set wd'"
    using assms by (rule replay_keeps_target)
qed

theorem filter_never_removes_target_witness:
  "target \<lparr>words_base = [''crank'', ''whack'', ''aback''], target = ''whack''\<rparr>
     \<in> set [''crank'', ''whack'', ''aback''] \<and>
   list_all (\<lambda>w. length w = 5) [''crank'', ''whack'', ''aback''] \<and>
   try_word \<lparr>words_base = [''crank'', ''whack'', ''aback''], target = ''whack''\<rparr> ''crank'' =
     Inr ([(CHR ''c'', 1), (CHR ''r'', 0), (CHR ''a'', 2), (CHR ''n'', 0), (CHR ''k'', 2)], False) \<and>
   (\<exists>wd'. filter_working_dict [''crank'', ''whack'', ''aback'']
              [(CHR ''c'', 1), (CHR ''r'', 0), (CHR ''a'', 2), (CHR ''n'', 0), (CHR ''k'', 2)] = Inr wd' \<and>
           ''whack'' \<in> set wd') \<and>
   grade_all \<lparr>words_base = [''crank'', ''whack'', ''aback''], target = ''whack''\<rparr>
       [''crank'', ''aback''] =
     Inr [[(CHR ''c'', 1), (CHR ''r'', 0), (CHR ''a'', 2), (CHR ''n'', 0), (CHR ''k'', 2)],
          [(CHR ''a'', 1), (CHR ''b'', 0), (CHR ''a'', 2), (CHR ''c'', 2), (CHR ''k'', 2)]] \<and>
   (\<exists>wd'. replay_updates [''crank'', ''whack'', ''aback''] []
             [[(CHR ''c'', 1), (CHR ''r'', 0), (CHR ''a'', 2), (CHR ''n'', 0), (CHR ''k'', 2)],
              [(CHR ''a'', 1), (CHR ''b'', 0), (CHR ''a'', 2), (CHR ''c'', 2), (CHR ''k'', 2)]]
             = Inr wd' \<and> ''whack'' \<in> set wd')"
proof -
  let ?game = "\<lparr>words_base = [''crank'', ''whack'', ''aback''], target = ''whack''\<rparr>"
  have g1: "try_word ?game ''crank'' =
     Inr ([(CHR ''c'', 1), (CHR ''r'', 0), (CHR ''a'', 2), (CHR ''n'', 0), (CHR ''k'', 2)], False)"
    by (simp add: try_word_def bind_def grade_letter_def getitem_def all_list_def upt_rec)
  have g2: "try_word ?game ''aback'' =
     Inr ([(CHR ''a'', 1), (CHR ''b'', 0), (CHR ''a'', 2), (CHR ''c'', 2), (CHR ''k'', 2)], False)"
    by (simp add: try_word_def bind_def grade_letter_def getitem_def all_list_def upt_rec)
  have ga: "grade_all ?game [''crank'', ''aback''] =
     Inr [[(CHR ''c'', 1), (CHR ''r'', 0), (CHR ''a'', 2), (CHR ''n'', 0), (CHR ''k'', 2)],
          [(CHR ''a'', 1), (CHR ''b'', 0), (CHR ''a'', 2), (CHR ''c'', 2), (CHR ''k'', 2)]]"
    by (simp add: grade_all_def bind_def g1 g2)
  have h1: "target ?game \<in> set [''crank'', ''whack'', ''aback'']"
    by simp
  have h2: "\<forall>w \<in> set [''crank'', ''whack'', ''aback'']. length w = 5"
    by simp
  show ?thesis
    using filter_never_removes_target [OF h1 h2, of "''crank''"
        "[(CHR ''c'', 1), (CHR ''r'', 0), (CHR ''a'', 2), (CHR ''n'', 0), (CHR ''k'', 2)]" False
        "[''crank'', ''aback'']"
        "[[(CHR ''c'', 1), (CHR ''r'', 0), (CHR ''a'', 2), (CHR ''n'', 0), (CHR ''k'', 2)],
          [(CHR ''a'', 1), (CHR ''b'', 0), (CHR ''a'', 2), (CHR ''c'', 2), (CHR ''k'', 2)]]"]
      g1 ga
    by simp
qed

section \<open>Properties of the frequency scores\<close>

lemma bind_Inr [simp]: "bind (Inr x) f = f x"
  by (simp add: bind_def)

lemma bind_Inl [simp]: "bind (Inl e) f = Inl e"
  by (simp add: bind_def)

lemma map_of_graph:
  "map_of (map (\<lambda>k. (k, f k)) ks) k = (if k \<in> set ks then Some (f k) else None)"
  by (induction ks) simp_all

lemma count_list_concat:
  "count_list (concat xss) x = (\<Sum>xs\<leftarrow>xss. count_list xs x)"
  by (induction xss) simp_all

lemma char_freq_nonempty:
  assumes "wd \<noteq> []"
  shows "char_freq wd =
     Inr (\<lambda>l. if l \<in> set ascii_lowercase then Some (occurrence_freq wd l) else None)"
proof -
  have "map_err (\<lambda>l. bind (truediv (of_nat (count_list (concat wd) l)) (of_nat (length wd)))
                        (\<lambda>f. Inr (l, f))) ascii_lowercase
        = Inr (map (\<lambda>l. (l, occurrence_freq wd l)) ascii_lowercase)"
    using assms
    by (intro map_err_total) (simp add: truediv_def occurrence_freq_def count_list_concat)
  then show ?thesis
    by (simp add: char_freq_def Let_def map_of_graph fun_eq_iff)
qed


lemma is_word_lowercase: "is_word w \<Longrightarrow> c \<in> set w \<Longrightarrow> c \<in> set ascii_lowercase"
  by (simp add: is_word_def list_all_iff)






lemma bind_eq_Inr: "bind m f = Inr y \<longleftrightarrow> (\<exists>x. m = Inr x \<and> f x = Inr y)"
  by (cases m) simp_all

lemma map_err_Inr_D: "map_err f xs = Inr ys \<Longrightarrow> x \<in> set xs \<Longrightarrow> \<exists>y. f x = Inr y"
  by (induction xs arbitrary: ys) (auto split: sum.splits)

lemma count_true_filter:
  "length (filter (\<lambda>b. b) (map (\<lambda>w. l = w ! i) wd)) = length (filter (\<lambda>w. w ! i = l) wd)"
  by (induction wd) auto

lemma cpos_count_words:
  assumes "\<forall>w \<in> set wd. i < length w"
  shows "cpos_count wd l i = Inr (length (filter (\<lambda>w. w ! i = l) wd))"
proof -
  have "map_err (\<lambda>w. bind (getitem w i) (\<lambda>c. Inr (l = c))) wd = Inr (map (\<lambda>w. l = w ! i) wd)"
    using assms by (intro map_err_total) (simp add: getitem_def)
  then show ?thesis
    by (simp only: cpos_count_def bind_Inr count_true_filter)
qed

lemma cpos_freq_words:
  assumes "\<forall>w \<in> set wd. 5 \<le> length w"
  shows "cpos_freq wd =
     Inr (\<lambda>l. if l \<in> set ascii_lowercase
               then Some (map (\<lambda>i. (i, length (filter (\<lambda>w. w ! i = l) wd))) [0..<5])
               else None)"
proof -
  have inner: "map_err (\<lambda>i. bind (cpos_count wd l i) (\<lambda>n. Inr (i, n))) [0..<5] =
      Inr (map (\<lambda>i. (i, length (filter (\<lambda>w. w ! i = l) wd))) [0..<5])" for l
  proof (rule map_err_total)
    fix i assume "i \<in> set [0..<5]"
    then have "\<forall>w \<in> set wd. i < length w"
      using assms by fastforce
    then show "bind (cpos_count wd l i) (\<lambda>n. Inr (i, n)) =
        Inr (i, length (filter (\<lambda>w. w ! i = l) wd))"
      by (simp add: cpos_count_words)
  qed
  have "map_err (\<lambda>l. bind (map_err (\<lambda>i. bind (cpos_count wd l i) (\<lambda>n. Inr (i, n))) [0..<5])
                        (\<lambda>d. Inr (l, d))) ascii_lowercase =
        Inr (map (\<lambda>l. (l, map (\<lambda>i. (i, length (filter (\<lambda>w. w ! i = l) wd))) [0..<5]))
               ascii_lowercase)"
    by (rule map_err_total) (simp only: inner bind_Inr)
  then show ?thesis
    by (simp add: cpos_freq_def map_of_graph fun_eq_iff del: upt_Suc)
qed

lemma cpos_freq_Inr_D:
  assumes "cpos_freq wd = Inr cpf"
  shows "\<forall>w \<in> set wd. 5 \<le> length w"
proof
  fix w assume w: "w \<in> set wd"
  from assms obtain kvs where
    "map_err (\<lambda>l. bind (map_err (\<lambda>i. bind (cpos_count wd l i) (\<lambda>n. Inr (i, n))) [0..<5])
                        (\<lambda>d. Inr (l, d))) ascii_lowercase = Inr kvs"
    by (auto simp: cpos_freq_def bind_eq_Inr)
  from map_err_Inr_D [OF this, of "CHR ''a''"] obtain d where
    "map_err (\<lambda>i. bind (cpos_count wd CHR ''a'' i) (\<lambda>n. Inr (i, n))) [0..<5] = Inr d"
    by (auto simp: ascii_lowercase_def bind_eq_Inr)
  from map_err_Inr_D [OF this, of 4] obtain n where "cpos_count wd CHR ''a'' 4 = Inr n"
    by (auto simp: bind_eq_Inr)
  then obtain bs where
    "map_err (\<lambda>w. bind (getitem w 4) (\<lambda>c. Inr (CHR ''a'' = c))) wd = Inr bs"
    by (auto simp: cpos_count_def bind_eq_Inr)
  from map_err_Inr_D [OF this w] have "4 < length w"
    by (auto simp: bind_eq_Inr getitem_def split: if_splits)
  then show "5 \<le> length w" by simp
qed

lemma position_count_pos:
  "w \<in> set wd \<Longrightarrow> 0 < length (filter (\<lambda>v. v ! i = w ! i) wd)"
  by (auto simp: filter_empty_conv)

lemma position_counts_sum_pos:
  assumes "w \<in> set wd" "i < 5"
  shows "0 < (\<Sum>j\<leftarrow>[0..<5]. length (filter (\<lambda>v. v ! j = w ! i) wd))"
proof -
  have "length (filter (\<lambda>v. v ! i = w ! i) wd)
      \<in> set (map (\<lambda>j. length (filter (\<lambda>v. v ! j = w ! i) wd)) [0..<5])"
    unfolding set_map by (rule image_eqI [where x = i]) (use assms(2) in simp_all)
  then have "length (filter (\<lambda>v. v ! i = w ! i) wd)
      \<le> (\<Sum>j\<leftarrow>[0..<5]. length (filter (\<lambda>v. v ! j = w ! i) wd))"
    by (rule member_le_sum_list) simp
  then show ?thesis
    using position_count_pos [OF assms(1), of i] by linarith
qed

lemma sum_list_divide_const:
  "(\<Sum>x\<leftarrow>xs. f x / (c::rat)) = (\<Sum>x\<leftarrow>xs. f x) / c"
  by (induction xs) (simp_all add: add_divide_distrib)

lemma of_nat_sum_list_map:
  "(of_nat (\<Sum>x\<leftarrow>xs. f x) :: rat) = (\<Sum>x\<leftarrow>xs. of_nat (f x))"
  by (induction xs) simp_all

lemma spec_posFreq_ratio:
  assumes "wd \<noteq> []"
  shows "spec_posFreq wd l i / (\<Sum>j\<leftarrow>[0..<5]. spec_posFreq wd l j) =
         of_nat (length (filter (\<lambda>w. w ! i = l) wd)) /
         of_nat (\<Sum>j\<leftarrow>[0..<5]. length (filter (\<lambda>w. w ! j = l) wd))"
proof -
  have n: "(of_nat (length wd) :: rat) \<noteq> 0"
    using assms by simp
  have "(\<Sum>j\<leftarrow>[0..<5]. spec_posFreq wd l j) =
        of_nat (\<Sum>j\<leftarrow>[0..<5]. length (filter (\<lambda>w. w ! j = l) wd)) / of_nat (length wd)"
    unfolding spec_posFreq_def sum_list_divide_const of_nat_sum_list_map ..
  then show ?thesis
    using n by (simp add: spec_posFreq_def)
qed

lemma spec_posFreq_sum_nonzero:
  assumes "w \<in> set wd" "i < 5"
  shows "(\<Sum>j\<leftarrow>[0..<5]. spec_posFreq wd (w ! i) j) \<noteq> 0"
proof -
  have n: "(of_nat (length wd) :: rat) \<noteq> 0"
    using assms(1) by auto
  have s: "(of_nat (\<Sum>j\<leftarrow>[0..<5]. length (filter (\<lambda>v. v ! j = w ! i) wd)) :: rat) \<noteq> 0"
    unfolding of_nat_eq_0_iff using position_counts_sum_pos [OF assms] by (rule gr_implies_not0)
  have "(\<Sum>j\<leftarrow>[0..<5]. spec_posFreq wd (w ! i) j) =
        of_nat (\<Sum>j\<leftarrow>[0..<5]. length (filter (\<lambda>v. v ! j = w ! i) wd)) / of_nat (length wd)"
    unfolding spec_posFreq_def sum_list_divide_const of_nat_sum_list_map ..
  with n s show ?thesis
    by simp
qed

lemma freq2_term_word:
  assumes wd: "\<forall>v \<in> set wd. is_word v" and w: "w \<in> set wd" and i: "i < 5" and pw: "pw \<noteq> 0"
    and cf: "cf = (\<lambda>l. if l \<in> set ascii_lowercase then Some (occurrence_freq wd l) else None)"
    and cpf: "cpf = (\<lambda>l. if l \<in> set ascii_lowercase
               then Some (map (\<lambda>i. (i, length (filter (\<lambda>w. w ! i = l) wd))) [0..<5])
               else None)"
  shows "freq2_term cf cpf pw w (i, w ! i) =
     Inr ((occurrence_freq wd (w ! i) / of_nat (count_list w (w ! i))) *
          (1 + spec_posFreq wd (w ! i) i / (\<Sum>j\<leftarrow>[0..<5]. spec_posFreq wd (w ! i) j) / pw))"
proof -
  let ?l = "w ! i"
  have len: "length w = 5" and "is_word w"
    using wd w by (auto simp: is_word_def)
  then have mem: "?l \<in> set w"
    using i by simp
  then have low: "?l \<in> set ascii_lowercase"
    using \<open>is_word w\<close> by (rule is_word_lowercase [rotated])
  have ne: "wd \<noteq> []" using w by auto
  have c: "(of_nat (count_list w ?l) :: rat) \<noteq> 0"
    using mem by (simp add: count_list_0_iff)
  have s: "(of_nat (\<Sum>j\<leftarrow>[0..<5]. length (filter (\<lambda>v. v ! j = ?l) wd)) :: rat) \<noteq> 0"
    unfolding of_nat_eq_0_iff using position_counts_sum_pos [OF w i] by (rule gr_implies_not0)
  let ?D = "map (\<lambda>i. (i, length (filter (\<lambda>w. w ! i = ?l) wd))) [0..<5]"
  let ?S = "\<Sum>j\<leftarrow>[0..<5]. length (filter (\<lambda>v. v ! j = ?l) wd)"
  have d: "sum_list (map snd ?D) = ?S"
    by (simp add: comp_def del: upt_Suc)
  have f1: "lookup cf ?l = Inr (occurrence_freq wd ?l)"
    using low by (simp add: cf lookup_def)
  have f2: "truediv (occurrence_freq wd ?l) (of_nat (count_list w ?l)) =
      Inr (occurrence_freq wd ?l / of_nat (count_list w ?l))"
    using c by (simp only: truediv_def if_False)
  have f3: "lookup cpf ?l = Inr ?D"
    using low by (simp add: cpf lookup_def del: upt_Suc)
  have f4: "lookup (map_of ?D) i = Inr (length (filter (\<lambda>w. w ! i = ?l) wd))"
    using i by (simp add: lookup_def map_of_graph del: upt_Suc)
  have f5: "truediv (of_nat (length (filter (\<lambda>w. w ! i = ?l) wd))) (of_nat (sum_list (map snd ?D)))
      = Inr (of_nat (length (filter (\<lambda>w. w ! i = ?l) wd)) / of_nat ?S)"
    using s by (simp only: d truediv_def if_False)
  have f6: "truediv p pw = Inr (p / pw)" for p
    using pw by (simp only: truediv_def if_False)
  have "freq2_term cf cpf pw w (i, ?l) =
     Inr ((occurrence_freq wd ?l / of_nat (count_list w ?l)) *
          (1 + of_nat (length (filter (\<lambda>w. w ! i = ?l) wd)) / of_nat ?S / pw))"
    by (simp only: freq2_term_def prod.case f1 f2 f3 f4 f5 f6 bind_Inr)
  then show ?thesis
    by (simp only: spec_posFreq_ratio [OF ne])
qed

lemma freq2_score_word:
  assumes wd: "\<forall>v \<in> set wd. is_word v" and w: "w \<in> set wd" and pw: "pw \<noteq> 0"
    and cf: "cf = (\<lambda>l. if l \<in> set ascii_lowercase then Some (occurrence_freq wd l) else None)"
    and cpf: "cpf = (\<lambda>l. if l \<in> set ascii_lowercase
               then Some (map (\<lambda>i. (i, length (filter (\<lambda>w. w ! i = l) wd))) [0..<5])
               else None)"
  shows "freq2_score cf cpf pw w = Inr (spec_pos_score (occurrence_freq wd) wd pw w)"
proof -
  have len: "length w = 5"
    using wd w by (auto simp: is_word_def)
  have "map_err (freq2_term cf cpf pw w) (map (\<lambda>i. (i, w ! i)) [0..<5]) =
      Inr (map (\<lambda>it. (occurrence_freq wd (snd it) / of_nat (count_list w (snd it))) *
          (1 + spec_posFreq wd (snd it) (fst it) /
                 (\<Sum>j\<leftarrow>[0..<5]. spec_posFreq wd (snd it) j) / pw))
        (map (\<lambda>i. (i, w ! i)) [0..<5]))"
  proof (rule map_err_total)
    fix it assume "it \<in> set (map (\<lambda>i. (i, w ! i)) [0..<5])"
    then obtain i where "i < 5" "it = (i, w ! i)" by auto
    then show "freq2_term cf cpf pw w it =
       Inr ((occurrence_freq wd (snd it) / of_nat (count_list w (snd it))) *
          (1 + spec_posFreq wd (snd it) (fst it) /
                 (\<Sum>j\<leftarrow>[0..<5]. spec_posFreq wd (snd it) j) / pw))"
      using freq2_term_word [OF wd w _ pw cf cpf, of i] by simp
  qed
  then show ?thesis
    by (simp add: freq2_score_def enumerate_list_nth len spec_pos_score_def comp_def
        del: upt_Suc)
qed

lemma freq2_scores_words:
  assumes "wd \<noteq> []" "\<forall>w \<in> set wd. is_word w" "pw \<noteq> 0"
  shows "freq2_scores wd pw =
     Inr (map (\<lambda>w. (w, spec_pos_score (occurrence_freq wd) wd pw w)) wd)"
proof -
  let ?cf = "\<lambda>l. if l \<in> set ascii_lowercase then Some (occurrence_freq wd l) else None"
  let ?cpf = "\<lambda>l. if l \<in> set ascii_lowercase
               then Some (map (\<lambda>i. (i, length (filter (\<lambda>w. w ! i = l) wd))) [0..<5])
               else None"
  have five: "\<forall>w \<in> set wd. 5 \<le> length w"
    using assms(2) by (simp add: is_word_def)
  have "map_err (\<lambda>w. bind (freq2_score ?cf ?cpf pw w) (\<lambda>s. Inr (w, s))) wd =
      Inr (map (\<lambda>w. (w, spec_pos_score (occurrence_freq wd) wd pw w)) wd)"
    by (rule map_err_total)
       (simp only: freq2_score_word [OF assms(2) _ assms(3) refl refl] bind_Inr)
  then show ?thesis
    by (simp only: freq2_scores_def char_freq_nonempty [OF assms(1)]
        cpos_freq_words [OF five] bind_Inr)
qed

lemma bind_eq_Inl:
  "bind m f = Inl e \<longleftrightarrow> m = Inl e \<or> (\<exists>x. m = Inr x \<and> f x = Inl e)"
  by (cases m) simp_all

lemma map_err_Inl_D: "map_err f xs = Inl e \<Longrightarrow> \<exists>x \<in> set xs. f x = Inl e"
  by (induction xs) (auto split: sum.splits)

lemma cpos_count_error: "cpos_count wd l i = Inl e \<Longrightarrow> e = IndexError"
  by (auto simp: cpos_count_def bind_eq_Inl getitem_def dest!: map_err_Inl_D split: if_splits)

lemma cpos_freq_error:
  assumes "cpos_freq wd = Inl e"
  shows "e = IndexError"
proof -
  from assms obtain l i where "cpos_count wd l i = Inl e"
    by (auto simp: cpos_freq_def bind_eq_Inl dest!: map_err_Inl_D)
  then show ?thesis
    by (rule cpos_count_error)
qed

lemma cpos_freq_sum_nonzero:
  assumes "cpos_freq wd = Inr cpf" "w \<in> set wd" "i < 5" "cpf (w ! i) = Some d"
  shows "sum_list (map snd d) \<noteq> 0"
proof -
  have "cpf = (\<lambda>l. if l \<in> set ascii_lowercase
               then Some (map (\<lambda>i. (i, length (filter (\<lambda>w. w ! i = l) wd))) [0..<5])
               else None)"
    using cpos_freq_words [OF cpos_freq_Inr_D [OF assms(1)]] assms(1) by simp
  with assms(4) have "d = map (\<lambda>j. (j, length (filter (\<lambda>v. v ! j = w ! i) wd))) [0..<5]"
    by (simp split: if_splits)
  then have "sum_list (map snd d) = (\<Sum>j\<leftarrow>[0..<5]. length (filter (\<lambda>v. v ! j = w ! i) wd))"
    by (simp add: comp_def del: upt_Suc)
  then show ?thesis
    using position_counts_sum_pos [OF assms(2,3)] by linarith
qed

lemma cpos_freq_keys:
  assumes "cpos_freq wd = Inr cpf" "cpf l = Some d" "map_of d i = Some c"
  shows "i < 5"
proof -
  have "cpf = (\<lambda>l. if l \<in> set ascii_lowercase
               then Some (map (\<lambda>i. (i, length (filter (\<lambda>w. w ! i = l) wd))) [0..<5])
               else None)"
    using cpos_freq_words [OF cpos_freq_Inr_D [OF assms(1)]] assms(1) by simp
  with assms(2) have "d = map (\<lambda>j. (j, length (filter (\<lambda>v. v ! j = l) wd))) [0..<5]"
    by (simp split: if_splits)
  with assms(3) show ?thesis
    by (simp add: map_of_graph split: if_splits del: upt_Suc)
qed

lemma freq2_term_no_zero_division:
  assumes "cpos_freq wd = Inr cpf" "w \<in> set wd" "i < length w" "pw \<noteq> 0"
  shows "freq2_term cf cpf pw w (i, w ! i) \<noteq> Inl ZeroDivisionError"
proof -
  have c: "(of_nat (count_list w (w ! i)) :: rat) \<noteq> 0"
    using assms(3) by (simp add: count_list_0_iff)
  have s: "(of_nat (sum_list (map snd d)) :: rat) \<noteq> 0"
    if "cpf (w ! i) = Some d" "map_of d i = Some c" for d c
    unfolding of_nat_eq_0_iff
    using cpos_freq_sum_nonzero [OF assms(1,2) cpos_freq_keys [OF assms(1) that] that(1)] .
  show ?thesis
    using c s assms(4)
    by (auto simp: freq2_term_def bind_eq_Inl lookup_def truediv_def
        split: option.splits if_splits)
qed

lemma freq2_score_no_zero_division:
  assumes "cpos_freq wd = Inr cpf" "w \<in> set wd" "pw \<noteq> 0"
  shows "freq2_score cf cpf pw w \<noteq> Inl ZeroDivisionError"
proof
  assume "freq2_score cf cpf pw w = Inl ZeroDivisionError"
  then have "map_err (freq2_term cf cpf pw w) (enumerate_list w) = Inl ZeroDivisionError"
    by (simp add: freq2_score_def bind_eq_Inl)
  from map_err_Inl_D [OF this] obtain i where "i < length w"
    "freq2_term cf cpf pw w (i, w ! i) = Inl ZeroDivisionError"
    by (auto simp: enumerate_list_nth)
  then show False
    using freq2_term_no_zero_division [OF assms(1,2) _ assms(3)] by blast
qed

lemma freq2_scores_no_zero_division:
  assumes "wd \<noteq> []" "pw \<noteq> 0"
  shows "freq2_scores wd pw \<noteq> Inl ZeroDivisionError"
proof
  assume z: "freq2_scores wd pw = Inl ZeroDivisionError"
  show False
  proof (cases "cpos_freq wd")
    case (Inl e)
    then show False
      using z cpos_freq_error [OF Inl]
      by (simp add: freq2_scores_def char_freq_nonempty [OF assms(1)])
  next
    case (Inr cpf)
    with z obtain cf where
      "map_err (\<lambda>w. bind (freq2_score cf cpf pw w) (\<lambda>s. Inr (w, s))) wd = Inl ZeroDivisionError"
      by (simp add: freq2_scores_def char_freq_nonempty [OF assms(1)])
    from map_err_Inl_D [OF this] obtain w where "w \<in> set wd"
      "freq2_score cf cpf pw w = Inl ZeroDivisionError"
      by (auto simp: bind_eq_Inl)
    then show False
      using freq2_score_no_zero_division [OF Inr _ assms(2)] by blast
  qed
qed




text \<open>
  C6. The score of the positional bot never divides by zero. For a candidate \<open>w\<close> and a
  position \<open>i\<close> among the five, with the letter \<open>l\<close> of \<open>w\<close> there, the count of \<open>l\<close> in
  \<open>w\<close> and the sum over the positions of posFreq of \<open>l\<close> are not zero, and neither is the
  sum of the position counts of \<open>l\<close> that the code divides by. For any non-empty working
  dictionary and a weight that is not zero, the scores never fail with ZeroDivisionError;
  for candidates of five lowercase letters and a positive weight the scores are returned.
\<close>

theorem positional_score_divisors_nonzero:
  "(w \<in> set wd \<and> i < 5 \<and> i < length w \<longrightarrow>
      count_list w (w ! i) \<noteq> 0 \<and> (\<Sum>j\<leftarrow>[0..<5]. spec_posFreq wd (w ! i) j) \<noteq> 0) \<and>
   (w \<in> set wd \<and> i < 5 \<and> i < length w \<and> cpos_freq wd = Inr cpf \<and> cpf (w ! i) = Some d \<longrightarrow>
      sum_list (map snd d) \<noteq> 0) \<and>
   (wd \<noteq> [] \<and> pw \<noteq> 0 \<longrightarrow> freq2_scores wd pw \<noteq> Inl ZeroDivisionError) \<and>
   (wd \<noteq> [] \<and> (\<forall>w \<in> set wd. is_word w) \<and> 0 < pw \<longrightarrow>
      (\<exists>scores. freq2_scores wd pw = Inr scores))"
proof (intro conjI impI)
  assume a: "w \<in> set wd \<and> i < 5 \<and> i < length w"
  then show "count_list w (w ! i) \<noteq> 0"
    by (simp add: count_list_0_iff)
  from a show "(\<Sum>j\<leftarrow>[0..<5]. spec_posFreq wd (w ! i) j) \<noteq> 0"
    by (simp only: spec_posFreq_sum_nonzero not_False_eq_True)
next
  assume "w \<in> set wd \<and> i < 5 \<and> i < length w \<and> cpos_freq wd = Inr cpf \<and> cpf (w ! i) = Some d"
  then show "sum_list (map snd d) \<noteq> 0"
    using cpos_freq_sum_nonzero [of wd cpf w i d] by simp
next
  assume "wd \<noteq> [] \<and> pw \<noteq> 0"
  then show "freq2_scores wd pw \<noteq> Inl ZeroDivisionError"
    by (simp add: freq2_scores_no_zero_division)
next
  assume "wd \<noteq> [] \<and> (\<forall>w \<in> set wd. is_word w) \<and> 0 < pw"
  then show "\<exists>scores. freq2_scores wd pw = Inr scores"
    using freq2_scores_words [of wd pw] by simp
qed

theorem positional_score_divisors_nonzero_witness:
  "''eerie'' \<in> set [''eerie'', ''crank''] \<and> (0::nat) < 5 \<and> 0 < length ''eerie'' \<and>
   [''eerie'', ''crank''] \<noteq> [] \<and> (2::rat) \<noteq> 0 \<and> list_all is_word [''eerie'', ''crank''] \<and>
   (0::rat) < 2 \<and>
   bind (cpos_freq [''eerie'', ''crank'']) (\<lambda>cpf. lookup cpf (''eerie'' ! 0)) =
     Inr [(0, 1), (1, 1), (2, 0), (3, 0), (4, 1)] \<and>
   count_list ''eerie'' (''eerie'' ! 0) \<noteq> 0 \<and>
   sum_list (map snd [(0::nat, 1::nat), (1, 1), (2, 0), (3, 0), (4, 1)]) \<noteq> 0 \<and>
   freq2_scores [''eerie'', ''crank''] 2 \<noteq> Inl ZeroDivisionError \<and>
   freq2_scores [''eerie'', ''crank''] 2 = Inr [(''eerie'', 15 / 4), (''crank'', 17 / 4)]"
proof -
  have five: "\<forall>w \<in> set [''eerie'', ''crank'']. 5 \<le> length w"
    by simp
  have words: "\<forall>w \<in> set [''eerie'', ''crank'']. is_word w"
    by (simp add: is_word_def ascii_lowercase_def)
  have s: "freq2_scores [''eerie'', ''crank''] 2 = Inr [(''eerie'', 15 / 4), (''crank'', 17 / 4)]"
    by (subst freq2_scores_words [OF _ words])
       (simp_all add: spec_pos_score_def occurrence_freq_def spec_posFreq_def upt_rec)
  have l: "bind (cpos_freq [''eerie'', ''crank'']) (\<lambda>cpf. lookup cpf (''eerie'' ! 0)) =
     Inr [(0, 1), (1, 1), (2, 0), (3, 0), (4, 1)]"
    by (simp add: cpos_freq_words [OF five] lookup_def ascii_lowercase_def upt_rec)
  show ?thesis
    using positional_score_divisors_nonzero
      [of "''eerie''" "[''eerie'', ''crank'']" 0
          "\<lambda>l. if l \<in> set ascii_lowercase
               then Some (map (\<lambda>i. (i, length (filter (\<lambda>w. w ! i = l) [''eerie'', ''crank'']))) [0..<5])
               else None"
          "[(0, 1), (1, 1), (2, 0), (3, 0), (4, 1)]" 2]
      s l words
    by (simp add: list_all_iff)
qed



lemma sorted_reverse_snoc:
  "sorted_reverse f (xs @ [x]) = rev (insort_key f x (sort_key f (rev xs)))"
  by (simp add: sorted_reverse_def sort_key_def)







section \<open>Properties of the game loop\<close>








end
